theory Spec2Isabelle
  imports Main "HOL-Library.Word"
begin

section \<open>The buffered read and seek core of \<open>BeQuicSpdyClient\<close>\<close>

text \<open>
  A shallow embedding of \<^verbatim>\<open>src/chromium/be_quic_spdy_client.cc\<close>: the member functions
  \<^verbatim>\<open>read_body\<close>, \<^verbatim>\<open>seek_in_buffer\<close>, \<^verbatim>\<open>close_current_stream\<close>, \<^verbatim>\<open>on_data\<close> and
  \<^verbatim>\<open>is_buffer_sufficient\<close>, as functions on a record of the member variables they touch.

  Machine integers are words: \<^verbatim>\<open>int\<close> is \<open>32 word\<close> and \<^verbatim>\<open>int64_t\<close> is \<open>64 word\<close>, both
  compared with the signed orders \<open><s\<close> and \<open>\<le>s\<close> and read with \<open>sint\<close>; \<open>+\<close> and \<open>-\<close> wrap
  around (two's complement). C++ leaves the overflow of a signed sum or difference
  undefined, so a statement below that needs the exact result says in its hypotheses that
  the result fits. A value of type \<^verbatim>\<open>size_t\<close> that is the size of a container is a
  \<open>nat\<close>, and every conversion between the two worlds is written out where the source has
  it: \<^verbatim>\<open>(size_t)size\<close> is \<open>unat (scast size)\<close>, \<^verbatim>\<open>(int)read_len\<close> and
  \<^verbatim>\<open>(int64_t)response_buff_.size()\<close> are \<open>of_nat\<close>.

  The class is declared in \<^verbatim>\<open>be_quic_spdy_client.h\<close>, which is not among the sources; the
  types of the member variables are the ones their uses in the source file fix
  (\<^verbatim>\<open>content_length_\<close> and \<^verbatim>\<open>read_offset_\<close> are compared with and assigned to \<^verbatim>\<open>int64_t\<close>
  values, \<^verbatim>\<open>current_stream_id_\<close> holds a stream id).
\<close>

type_synonym byte = "8 word"
type_synonym int32 = "32 word"
type_synonym int64 = "64 word"
type_synonym addr = "64 word"

text \<open>An output pointer is an address; \<^verbatim>\<open>NULL\<close> is address 0.\<close>

definition NULL :: addr where
  "NULL = 0"

definition AVSEEK_SIZE :: int32 where
  "AVSEEK_SIZE = 0x10000"

definition SEEK_SET :: int32 where
  "SEEK_SET = 0"

definition SEEK_CUR :: int32 where
  "SEEK_CUR = 1"

definition SEEK_END :: int32 where
  "SEEK_END = 2"

definition kReadBlockSize :: int32 where
  "kReadBlockSize = 32768"

text \<open>
  The error codes are enumerators of \<^verbatim>\<open>be_quic_define.h\<close>, whose numeric values the source
  file does not show; they are kept symbolic, and a function that returns either an error
  code or a number returns a sum, \<open>Inl\<close> the error code.
\<close>

datatype BeQuicErrorCode =
    kBeQuicErrorCode_Invalid_Param
  | kBeQuicErrorCode_Invalid_State
  | kBeQuicErrorCode_Not_Supported
  | kBeQuicErrorCode_Eof
  | kBeQuicErrorCode_Buffer_Not_Hit

text \<open>
  The session is an external collaborator. The two calls \<^verbatim>\<open>close_current_stream\<close> makes
  on it are logged; \<open>None\<close> is the null session pointer.
\<close>

datatype session_call =
    SendRstStream "32 word"
  | CloseStream "32 word"

text \<open>
  The member variables. \<open>response_buff\<close> is the stream buffer that \<^verbatim>\<open>istream_\<close> reads
  from the head of and \<^verbatim>\<open>ostream_\<close> writes to the tail of: the list of its unread bytes.
  \<^verbatim>\<open>first_data_time_\<close> is a timestamp that none of the functions below reads; it is left out.
\<close>

record client =
  response_buff :: "byte list"
  content_length :: int64
  read_offset :: int64
  current_stream_id :: "32 word"
  got_first_data :: bool
  session :: "session_call list option"

text \<open>\<^verbatim>\<open>response_buff_.consume(n)\<close> drops \<open>n\<close> bytes from the head.\<close>

definition consume :: "nat \<Rightarrow> byte list \<Rightarrow> byte list" where
  "consume n buff = drop n buff"

subsection \<open>\<^verbatim>\<open>is_buffer_sufficient\<close>\<close>

definition is_buffer_sufficient :: "client \<Rightarrow> bool" where
  "is_buffer_sufficient c =
     (let sz = length (response_buff c) in
      if content_length c = - 1 then 0 < sz
      else if sz = 0 then False
      else if content_length c - read_offset c <s scast kReadBlockSize then True
      else if sz < unat (scast kReadBlockSize :: 64 word) then False
      else True)"

subsection \<open>\<^verbatim>\<open>on_data\<close>\<close>

text \<open>
  What \<^verbatim>\<open>on_data\<close> uses of the stream object it is handed: \<^verbatim>\<open>stream->id()\<close> and
  \<^verbatim>\<open>check_content_length()\<close>.
\<close>

record quic_stream =
  stream_id :: "32 word"
  check_content_length :: int64

text \<open>
  \<open>None\<close> is a null \<^verbatim>\<open>stream\<close> or \<^verbatim>\<open>buf\<close>; \<open>Some bytes\<close> is the array \<^verbatim>\<open>buf\<close> points to,
  of which \<^verbatim>\<open>ostream_.write(buf, size)\<close> appends the first \<^verbatim>\<open>size\<close> bytes. The second
  component of the result says whether \<^verbatim>\<open>cond_.notify_all()\<close> was called.
\<close>

definition on_data :: "client \<Rightarrow> quic_stream option \<Rightarrow> byte list option \<Rightarrow> int32 \<Rightarrow> client \<times> bool" where
  "on_data c stream buf sz =
     (case stream of
        None \<Rightarrow> (c, False)
      | Some st \<Rightarrow>
          let c1 = (if current_stream_id c = 0 then c\<lparr>current_stream_id := stream_id st\<rparr> else c);
              c2 = (if \<not> got_first_data c1
                    then c1\<lparr>content_length := check_content_length st, got_first_data := True\<rparr>
                    else c1)
          in (case buf of
                None \<Rightarrow> (c2, False)
              | Some bytes \<Rightarrow>
                  if 0 <s sz
                  then let c3 = c2\<lparr>response_buff := response_buff c2 @ take (nat (sint sz)) bytes\<rparr>
                       in (c3, is_buffer_sufficient c3)
                  else (c2, False)))"

subsection \<open>\<^verbatim>\<open>read_body\<close>\<close>

text \<open>
  A \<^verbatim>\<open>while\<close> loop whose body may \<^verbatim>\<open>break\<close>: the body returns \<open>Break\<close> to leave the loop
  and \<open>Continue\<close> to test the condition again. A loop that runs forever is \<open>None\<close>.
\<close>

datatype 'a flow = Break 'a | Continue 'a

partial_function (option) while_loop :: "('a \<Rightarrow> bool) \<Rightarrow> ('a \<Rightarrow> 'a flow) \<Rightarrow> 'a \<Rightarrow> 'a option" where
  [code]: "while_loop cond body x =
     (if cond x
      then (case body x of Break y \<Rightarrow> Some y | Continue y \<Rightarrow> while_loop cond body y)
      else Some x)"

text \<open>
  The two waits on the condition variable: \<^verbatim>\<open>cond_.wait_until(lock, now + timeout ms)\<close> and
  \<^verbatim>\<open>cond_.wait(lock)\<close>. A wait releases the mutex, so the other threads run while the reader
  is blocked: \<open>env\<close> is what they do to the member variables before the wait returns, by
  signal or by timeout. The loop state is the client together with the waits made so far.
\<close>

datatype wait = Wait_Until int32 | Wait_Forever

definition wait_body :: "int32 \<Rightarrow> (client \<Rightarrow> client) \<Rightarrow> client \<times> wait list \<Rightarrow> (client \<times> wait list) flow" where
  "wait_body timeout env = (\<lambda>(c, ws).
     Break (if 0 <s timeout then (env c, ws @ [Wait_Until timeout])
            else if timeout <s 0 then (env c, ws @ [Wait_Forever])
            else (c, ws)))"

text \<open>
  The result of \<^verbatim>\<open>read_body\<close>: the returned \<^verbatim>\<open>int\<close> (an error code or a count), the bytes
  \<^verbatim>\<open>istream_.read\<close> stored at \<^verbatim>\<open>buf\<close>, the waits made, and the member variables afterwards.
\<close>

record read_result =
  read_ret :: "BeQuicErrorCode + int32"
  copied :: "byte list"
  waits :: "wait list"
  read_client :: client

definition read_body :: "client \<Rightarrow> addr \<Rightarrow> int32 \<Rightarrow> int32 \<Rightarrow> (client \<Rightarrow> client) \<Rightarrow> read_result option" where
  "read_body c buf sz timeout env =
     (if buf = NULL \<or> sz = 0
      then Some \<lparr>read_ret = Inl kBeQuicErrorCode_Invalid_Param, copied = [], waits = [], read_client = c\<rparr>
      else if 0 <s content_length c \<and> content_length c \<le>s read_offset c
      then Some \<lparr>read_ret = Inl kBeQuicErrorCode_Eof, copied = [], waits = [], read_client = c\<rparr>
      else
        (case while_loop (\<lambda>(c', ws). \<not> is_buffer_sufficient c') (wait_body timeout env) (c, []) of
           None \<Rightarrow> None
         | Some (c1, ws) \<Rightarrow>
             let read_len = min (unat (scast sz :: 64 word)) (length (response_buff c1)) in
             if read_len = 0
             then Some \<lparr>read_ret = Inr 0, copied = [], waits = ws, read_client = c1\<rparr>
             else Some \<lparr>read_ret = Inr (of_nat read_len),
                        copied = take read_len (response_buff c1),
                        waits = ws,
                        read_client = c1\<lparr>response_buff := drop read_len (response_buff c1),
                                         read_offset := read_offset c1 + of_nat read_len\<rparr>\<rparr>))"

subsection \<open>\<^verbatim>\<open>seek_in_buffer\<close>\<close>

text \<open>
  The result of \<^verbatim>\<open>seek_in_buffer\<close>: the returned \<^verbatim>\<open>int64_t\<close>, the value stored through
  \<^verbatim>\<open>target_off\<close> if one was, and the member variables afterwards.
\<close>

record seek_result =
  seek_ret :: "BeQuicErrorCode + int64"
  target_stored :: "int64 option"
  seek_client :: client

definition seek_in_buffer :: "client \<Rightarrow> int64 \<Rightarrow> int32 \<Rightarrow> addr \<Rightarrow> seek_result" where
  "seek_in_buffer c off whence target_off =
     (if content_length c = - 1
      then \<lparr>seek_ret = Inl kBeQuicErrorCode_Not_Supported, target_stored = None, seek_client = c\<rparr>
      else if whence = AVSEEK_SIZE
      then \<lparr>seek_ret = Inr (content_length c), target_stored = None, seek_client = c\<rparr>
      else if (whence = SEEK_CUR \<and> off = 0) \<or> (whence = SEEK_SET \<and> off = read_offset c)
      then \<lparr>seek_ret = Inr off, target_stored = None, seek_client = c\<rparr>
      else if content_length c = - 1 \<and> whence = SEEK_END
      then \<lparr>seek_ret = Inl kBeQuicErrorCode_Invalid_State, target_stored = None, seek_client = c\<rparr>
      else
        (case (if whence = SEEK_CUR then Some (off + read_offset c)
               else if whence = SEEK_END then Some (off + content_length c)
               else if whence \<noteq> SEEK_SET then None
               else Some off) of
           None \<Rightarrow> \<lparr>seek_ret = Inl kBeQuicErrorCode_Invalid_Param, target_stored = None, seek_client = c\<rparr>
         | Some off' \<Rightarrow>
             if off' <s 0
             then \<lparr>seek_ret = Inl kBeQuicErrorCode_Invalid_Param, target_stored = None, seek_client = c\<rparr>
             else
               let left_size = (of_nat (length (response_buff c)) :: int64);
                   consume_size = off' - read_offset c
               in if 0 <s consume_size \<and> consume_size <s left_size
                  then \<lparr>seek_ret = Inr off', target_stored = None,
                        seek_client = c\<lparr>response_buff := consume (unat consume_size) (response_buff c),
                                         read_offset := off'\<rparr>\<rparr>
                  else \<lparr>seek_ret = Inl kBeQuicErrorCode_Buffer_Not_Hit,
                        target_stored = (if target_off \<noteq> NULL then Some off' else None),
                        seek_client = c\<rparr>))"

subsection \<open>\<^verbatim>\<open>close_current_stream\<close>\<close>

definition close_current_stream :: "client \<Rightarrow> bool \<times> client" where
  "close_current_stream c =
     (if current_stream_id c = 0 then (False, c)
      else
        (case session c of
           None \<Rightarrow> (False, c)
         | Some calls \<Rightarrow>
             (True,
              c\<lparr>session := Some (calls @ [SendRstStream (current_stream_id c), CloseStream (current_stream_id c)]),
                current_stream_id := 0,
                read_offset := 0,
                response_buff := consume (length (response_buff c)) (response_buff c)\<rparr>)))"

subsection \<open>The state in which \<^verbatim>\<open>read_body\<close> leaves its wait loop\<close>

text \<open>
  The client and the waits made when the loop \<^verbatim>\<open>while (!is_buffer_sufficient())\<close> of
  \<^verbatim>\<open>read_body\<close> is left; \<open>wait_loop_once\<close> below proves that the loop computes it.
\<close>

definition after_wait :: "client \<Rightarrow> int32 \<Rightarrow> (client \<Rightarrow> client) \<Rightarrow> client \<times> wait list" where
  "after_wait c timeout env =
     (if is_buffer_sufficient c then (c, [])
      else if 0 <s timeout then (env c, [Wait_Until timeout])
      else if timeout <s 0 then (env c, [Wait_Forever])
      else (c, []))"

subsection \<open>The sufficiency rules of the specification\<close>

text \<open>
  The content length as the specification sees it: unknown, or a number. The marker for
  an unknown length is \<open>- 1\<close>, as in the tests \<^verbatim>\<open>content_length_ == -1\<close> of the source.
\<close>

definition known_length :: "client \<Rightarrow> int option" where
  "known_length c = (if content_length c = - 1 then None else Some (sint (content_length c)))"

text \<open>
  The four rules of the specification's sufficiency policy, in its order and over the
  integers, written from its words and not from the source: with an unknown content
  length, sufficient iff something is retained; with nothing retained, not sufficient;
  with fewer than one read block (32 KiB) still expected, sufficient; otherwise
  sufficient iff at least one read block is retained.
\<close>

definition is_sufficient_spec :: "int option \<Rightarrow> int \<Rightarrow> nat \<Rightarrow> bool" where
  "is_sufficient_spec len offset retained =
     (case len of
        None \<Rightarrow> 0 < retained
      | Some n \<Rightarrow>
          if retained = 0 then False
          else if n - offset < 32768 then True
          else 32768 \<le> retained)"

subsection \<open>Sequences of deliveries and reads\<close>

text \<open>
  A delivery is one call of \<^verbatim>\<open>on_data\<close>: its three arguments. \<open>deliver\<close> makes the call and
  keeps the member variables; \<open>chunk\<close> is the byte sequence the call hands over, the array
  \<^verbatim>\<open>buf\<close> points to. A delivery is well formed when the stream is not null and \<^verbatim>\<open>size\<close>
  is the length of that array.
\<close>

type_synonym delivery = "quic_stream option \<times> byte list option \<times> int32"

definition deliver :: "delivery \<Rightarrow> client \<Rightarrow> client" where
  "deliver d c = (case d of (stream, buf, sz) \<Rightarrow> fst (on_data c stream buf sz))"

definition deliver_all :: "delivery list \<Rightarrow> client \<Rightarrow> client" where
  "deliver_all ds c = fold deliver ds c"

definition chunk :: "delivery \<Rightarrow> byte list" where
  "chunk d = (case d of (stream, buf, sz) \<Rightarrow> (case buf of None \<Rightarrow> [] | Some bytes \<Rightarrow> bytes))"

definition well_formed :: "delivery \<Rightarrow> bool" where
  "well_formed d =
     (case d of (stream, buf, sz) \<Rightarrow>
        stream \<noteq> None \<and> (case buf of None \<Rightarrow> True | Some bytes \<Rightarrow> sint sz = int (length bytes)))"

text \<open>
  The calls made on a client, in the order in which they take the mutex: a delivery by the
  network thread, or a call of \<^verbatim>\<open>read_body\<close> by the reader together with the deliveries
  the network thread makes while that read waits (they happen only if the read does wait).
  \<open>run\<close> makes the calls in order and collects the chunks delivered and the bytes the reads
  copied out.
\<close>

datatype call = Data delivery | Read addr int32 int32 "delivery list"

fun call_ok :: "call \<Rightarrow> bool" where
  "call_ok (Data d) = well_formed d"
| "call_ok (Read buf sz timeout ds) = list_all well_formed ds"

record trace =
  delivered :: "byte list"
  returned :: "byte list"
  last_client :: client

fun run :: "client \<Rightarrow> call list \<Rightarrow> trace option" where
  "run c [] = Some \<lparr>delivered = [], returned = [], last_client = c\<rparr>"
| "run c (Data d # cs) =
     (case run (deliver d c) cs of
        None \<Rightarrow> None
      | Some t \<Rightarrow> Some (t\<lparr>delivered := chunk d @ delivered t\<rparr>))"
| "run c (Read buf sz timeout ds # cs) =
     (case read_body c buf sz timeout (deliver_all ds) of
        None \<Rightarrow> None
      | Some r \<Rightarrow>
          (case run (read_client r) cs of
             None \<Rightarrow> None
           | Some t \<Rightarrow>
               Some (t\<lparr>delivered := (if waits r = [] then [] else concat (map chunk ds)) @ delivered t,
                       returned := copied r @ returned t\<rparr>)))"

section \<open>Basic facts\<close>

lemma while_loop_Break:
  "body x = Break y \<Longrightarrow> while_loop cond body x = Some (if cond x then y else x)"
  by (subst while_loop.simps) simp

lemma wait_loop_once:
  "while_loop (\<lambda>(c', ws). \<not> is_buffer_sufficient c') (wait_body timeout env) (c, []) =
     Some (after_wait c timeout env)"
proof -
  define y where "y = (if 0 <s timeout then (env c, [Wait_Until timeout])
                       else if timeout <s 0 then (env c, [Wait_Forever])
                       else (c, []))"
  have "wait_body timeout env (c, []) = Break y"
    by (simp add: wait_body_def y_def)
  then have "while_loop (\<lambda>(c', ws). \<not> is_buffer_sufficient c') (wait_body timeout env) (c, []) =
      Some (if \<not> is_buffer_sufficient c then y else (c, []))"
    by (simp add: while_loop_Break [of "wait_body timeout env" "(c, [])" y])
  then show ?thesis
    by (simp add: after_wait_def y_def)
qed

lemma read_body_rejected:
  "buf = NULL \<or> sz = 0 \<Longrightarrow> read_body c buf sz timeout env =
     Some \<lparr>read_ret = Inl kBeQuicErrorCode_Invalid_Param, copied = [], waits = [], read_client = c\<rparr>"
  by (simp add: read_body_def)

lemma read_body_eof:
  "buf \<noteq> NULL \<Longrightarrow> sz \<noteq> 0 \<Longrightarrow> 0 <s content_length c \<Longrightarrow> content_length c \<le>s read_offset c \<Longrightarrow>
   read_body c buf sz timeout env =
     Some \<lparr>read_ret = Inl kBeQuicErrorCode_Eof, copied = [], waits = [], read_client = c\<rparr>"
  by (simp add: read_body_def)

lemma read_body_proceeds:
  assumes "buf \<noteq> NULL" "sz \<noteq> 0" "\<not> (0 <s content_length c \<and> content_length c \<le>s read_offset c)"
  shows "read_body c buf sz timeout env =
     (let c1 = fst (after_wait c timeout env);
          read_len = min (unat (scast sz :: 64 word)) (length (response_buff c1))
      in Some \<lparr>read_ret = Inr (of_nat read_len),
               copied = take read_len (response_buff c1),
               waits = snd (after_wait c timeout env),
               read_client = c1\<lparr>response_buff := drop read_len (response_buff c1),
                                read_offset := read_offset c1 + of_nat read_len\<rparr>\<rparr>)"
  using assms
  by (cases "after_wait c timeout env") (auto simp: read_body_def wait_loop_once Let_def)

subsection \<open>Conversions between words, integers and sizes\<close>

lemma sint_sub_exact:
  fixes a b :: "64 word"
  assumes "- (2 ^ 63) \<le> sint a - sint b" and "sint a - sint b < 2 ^ 63"
  shows "sint (a - b) = sint a - sint b"
proof -
  have "sint (a - b) = signed_take_bit 63 (sint a - sint b)"
    by (simp add: sint_word_ariths)
  also have "\<dots> = sint a - sint b"
    using assms by (intro signed_take_bit_int_eq_self) simp_all
  finally show ?thesis .
qed

lemma sint_of_nat_64:
  assumes "n < 2 ^ 63"
  shows "sint (of_nat n :: 64 word) = int n"
proof -
  have "int n < 2 ^ 63"
    using assms by (metis of_nat_less_iff of_nat_numeral of_nat_power)
  then have "signed_take_bit 63 (int n) = int n"
    by (intro signed_take_bit_int_eq_self) simp_all
  then show ?thesis
    by (simp add: signed_of_nat)
qed

lemma sint_of_nat_32:
  assumes "n < 2 ^ 31"
  shows "sint (of_nat n :: 32 word) = int n"
proof -
  have "int n < 2 ^ 31"
    using assms by (metis of_nat_less_iff of_nat_numeral of_nat_power)
  then have "signed_take_bit 31 (int n) = int n"
    by (intro signed_take_bit_int_eq_self) simp_all
  then show ?thesis
    by (simp add: signed_of_nat)
qed

lemma sint_32_bounds:
  fixes sz :: "32 word"
  shows "- (2 ^ 31) \<le> sint sz" and "sint sz < 2 ^ 31"
  using sint_ge [of sz] sint_lt [of sz] by simp_all
lemma unat_scast_nonneg:
  fixes sz :: "32 word"
  assumes "0 \<le> sint sz"
  shows "unat (scast sz :: 64 word) = nat (sint sz)"
proof -
  have "sint sz < 2 ^ 64"
    using sint_32_bounds(2) [of sz] by simp
  then have "take_bit 64 (sint sz) = sint sz"
    using assms by (simp add: take_bit_int_eq_self)
  then show ?thesis
    by (simp add: scast_eq unat_eq_nat_uint uint_word_of_int_eq del: of_int_sint nat_uint_eq)
qed
lemma scast_block: "(scast kReadBlockSize :: 64 word) = 32768"
  by (simp add: kReadBlockSize_def)

lemma sint_64_bounds:
  fixes w :: "64 word"
  shows "- (2 ^ 63) \<le> sint w" and "sint w < 2 ^ 63"
  using sint_ge [of w] sint_lt [of w] by simp_all

lemma sint_sub_wrapped:
  fixes a b :: "64 word"
  assumes "2 ^ 63 \<le> sint a - sint b"
  shows "sint (a - b) < 0"
proof -
  have "sint (a - b) = signed_take_bit 63 (sint a - sint b)"
    by (simp add: sint_word_ariths)
  also have "\<dots> \<le> sint a - sint b - 2 ^ Suc 63"
    using assms by (rule signed_take_bit_int_less_eq)
  also have "\<dots> < 0"
    using sint_64_bounds(2) [of a] sint_64_bounds(1) [of b] by simp
  finally show ?thesis .
qed

lemma unat_of_nonneg_sint:
  fixes w :: "64 word"
  assumes "0 \<le> sint w"
  shows "unat w = nat (sint w)"
proof -
  have "uint w < 2 ^ 63"
  proof (rule ccontr)
    assume "\<not> uint w < 2 ^ 63"
    then have "2 ^ 63 \<le> uint w"
      by simp
    then have "signed_take_bit 63 (uint w) \<le> uint w - 2 ^ Suc 63"
      by (rule signed_take_bit_int_less_eq)
    moreover have "uint w < 2 ^ 64"
      using uint_lt2p [of w] by simp
    moreover have "sint w = signed_take_bit 63 (uint w)"
      by (simp add: sint_uint)
    ultimately show False
      using assms by simp
  qed
  moreover have "- (2 ^ 63) \<le> uint w"
  proof -
    have "- (2 ^ 63) \<le> (0 :: int)"
      by simp
    also have "0 \<le> uint w"
      by simp
    finally show ?thesis .
  qed
  ultimately have "signed_take_bit 63 (uint w) = uint w"
    by (intro signed_take_bit_int_eq_self)
  then have "sint w = uint w"
    by (simp add: sint_uint)
  then show ?thesis
    by (simp add: unat_eq_nat_uint del: nat_uint_eq)
qed

lemma seek_window_iff:
  fixes T ro :: "64 word"
  assumes "0 \<le> sint T" and "len < 2 ^ 63"
  shows "(0 <s T - ro \<and> T - ro <s of_nat len) \<longleftrightarrow>
         (sint ro < sint T \<and> sint T < sint ro + int len)"
proof (cases "sint T - sint ro < 2 ^ 63")
  case True
  have "- (2 ^ 63) \<le> sint T - sint ro"
    using assms(1) sint_64_bounds(2) [of ro] by simp
  then have "sint (T - ro) = sint T - sint ro"
    using True by (rule sint_sub_exact)
  then show ?thesis
    using assms(2) by (auto simp: word_sless_alt sint_of_nat_64)
next
  case False
  then have "sint (T - ro) < 0"
    by (intro sint_sub_wrapped) simp
  moreover have "int len < 2 ^ 63"
    using assms(2) by (metis of_nat_less_iff of_nat_numeral of_nat_power)
  ultimately show ?thesis
    using False by (auto simp: word_sless_alt)
qed

section \<open>Seeking with an unknown content length\<close>

text \<open>
  Claim C10. When \<open>content_length\<close> is the unknown marker \<open>- 1\<close>, \<^verbatim>\<open>seek_in_buffer\<close> returns
  \<^verbatim>\<open>kBeQuicErrorCode_Not_Supported\<close> for every \<open>whence\<close> and every offset, stores nothing
  through \<open>target_off\<close> and leaves every member variable as it was: the check of the
  unknown length is the first branch of the function.
\<close>

theorem seek_unknown_length_not_supported:
  assumes "content_length c = - 1"
  shows "seek_in_buffer c off whence target_off =
           \<lparr>seek_ret = Inl kBeQuicErrorCode_Not_Supported, target_stored = None, seek_client = c\<rparr>"
  using assms by (simp add: seek_in_buffer_def)

theorem seek_unknown_length_not_supported_witness:
  "seek_in_buffer
     \<lparr>response_buff = [1, 2, 3], content_length = - 1, read_offset = 7,
      current_stream_id = 5, got_first_data = True, session = None\<rparr> 7 SEEK_SET 1 =
   \<lparr>seek_ret = Inl kBeQuicErrorCode_Not_Supported, target_stored = None,
    seek_client = \<lparr>response_buff = [1, 2, 3], content_length = - 1, read_offset = 7,
      current_stream_id = 5, got_first_data = True, session = None\<rparr>\<rparr>"
proof -
  have h: "content_length \<lparr>response_buff = [1, 2, 3], content_length = - 1, read_offset = 7,
      current_stream_id = 5, got_first_data = True, session = None\<rparr> = - 1"
    by simp
  show ?thesis
    by (rule seek_unknown_length_not_supported [OF h])
qed

text \<open>
  \<^verbatim>\<open>seek_in_buffer\<close> has a branch that returns \<^verbatim>\<open>kBeQuicErrorCode_Invalid_State\<close>, for
  \<^verbatim>\<open>content_length_ == -1 && whence == SEEK_END\<close>. It stands behind the first test of the
  function, \<^verbatim>\<open>content_length_ == -1\<close>, which has already returned; no call gets that code.
\<close>

lemma seek_never_invalid_state:
  "seek_ret (seek_in_buffer c off whence target_off) \<noteq> Inl kBeQuicErrorCode_Invalid_State"
  by (simp add: seek_in_buffer_def Let_def split: option.split)

text \<open>
  Claim C5 says that, with an unknown content length, a seek relative to the end fails
  with \<^verbatim>\<open>kBeQuicErrorCode_Invalid_State\<close>, and the source has the branch that is meant to
  do so. The call does not reach it: with \<open>content_length = - 1\<close>, offset 0 and
  \<open>whence = SEEK_END\<close> it returns \<^verbatim>\<open>kBeQuicErrorCode_Not_Supported\<close> (and changes nothing).
\<close>

theorem seek_end_unknown_length_returns_not_supported:
  "seek_in_buffer
     \<lparr>response_buff = [], content_length = - 1, read_offset = 0,
      current_stream_id = 5, got_first_data = True, session = None\<rparr> 0 SEEK_END NULL =
   \<lparr>seek_ret = Inl kBeQuicErrorCode_Not_Supported, target_stored = None,
    seek_client = \<lparr>response_buff = [], content_length = - 1, read_offset = 0,
      current_stream_id = 5, got_first_data = True, session = None\<rparr>\<rparr>"
  by (simp add: seek_in_buffer_def)

section \<open>The seeks that move nothing\<close>

text \<open>
  Claim C6 says that \<open>seek(0, SEEK_CUR)\<close> returns the current \<open>read_offset\<close>. The branch
  for the two seeks that move nothing returns \<open>off\<close>, which is \<open>read_offset\<close> for
  \<open>SEEK_SET\<close> but the delta 0 for \<open>SEEK_CUR\<close>: with \<open>read_offset = 100\<close> the call returns 0
  (and changes nothing).
\<close>

theorem seek_cur_zero_returns_zero:
  "seek_in_buffer
     \<lparr>response_buff = [1, 2, 3], content_length = 1000, read_offset = 100,
      current_stream_id = 5, got_first_data = True, session = None\<rparr> 0 SEEK_CUR NULL =
   \<lparr>seek_ret = Inr 0, target_stored = None,
    seek_client = \<lparr>response_buff = [1, 2, 3], content_length = 1000, read_offset = 100,
      current_stream_id = 5, got_first_data = True, session = None\<rparr>\<rparr>"
  by (simp add: seek_in_buffer_def SEEK_CUR_def AVSEEK_SIZE_def)

section \<open>End of stream\<close>

text \<open>
  Claim C3, as the specification has it: for every buffer, size and timeout,
  \<^verbatim>\<open>read_body\<close> returns \<^verbatim>\<open>kBeQuicErrorCode_Eof\<close> whenever the content length is known and
  \<open>read_offset\<close> has reached it. Two calls where it does not: with a null buffer the
  argument check comes first, and with a content length of 0 the test
  \<^verbatim>\<open>content_length_ > 0\<close> fails, so the call goes on and returns the count 0.
\<close>

theorem read_body_eof_counterexample:
  "content_length \<lparr>response_buff = [], content_length = 1000, read_offset = 1000,
      current_stream_id = 5, got_first_data = True, session = None\<rparr> \<noteq> - 1
   \<and> content_length \<lparr>response_buff = [], content_length = 1000, read_offset = 1000,
      current_stream_id = 5, got_first_data = True, session = None\<rparr>
      \<le>s read_offset \<lparr>response_buff = [], content_length = 1000, read_offset = 1000,
      current_stream_id = 5, got_first_data = True, session = None\<rparr>
   \<and> read_body \<lparr>response_buff = [], content_length = 1000, read_offset = 1000,
      current_stream_id = 5, got_first_data = True, session = None\<rparr> NULL 16 0 id
     = Some \<lparr>read_ret = Inl kBeQuicErrorCode_Invalid_Param, copied = [], waits = [],
        read_client = \<lparr>response_buff = [], content_length = 1000, read_offset = 1000,
          current_stream_id = 5, got_first_data = True, session = None\<rparr>\<rparr>
   \<and> read_body \<lparr>response_buff = [], content_length = 0, read_offset = 0,
      current_stream_id = 5, got_first_data = True, session = None\<rparr> 1 16 0 id
     = Some \<lparr>read_ret = Inr 0, copied = [], waits = [],
        read_client = \<lparr>response_buff = [], content_length = 0, read_offset = 0,
          current_stream_id = 5, got_first_data = True, session = None\<rparr>\<rparr>"
  by (simp add: read_body_rejected read_body_proceeds NULL_def after_wait_def
      is_buffer_sufficient_def)

text \<open>
  Claim C3, amended. For every non-null buffer, every size other than 0 and every timeout,
  \<^verbatim>\<open>read_body\<close> returns \<^verbatim>\<open>kBeQuicErrorCode_Eof\<close> whenever \<open>content_length\<close> is positive and
  \<open>read_offset \<ge> content_length\<close>, whatever the timeout and the retained bytes; it copies
  nothing, does not wait and changes no member variable.
\<close>

theorem read_body_eof_positive_length:
  assumes "buf \<noteq> NULL" and "sz \<noteq> 0"
    and "0 <s content_length c" and "content_length c \<le>s read_offset c"
  shows "read_body c buf sz timeout env =
     Some \<lparr>read_ret = Inl kBeQuicErrorCode_Eof, copied = [], waits = [], read_client = c\<rparr>"
  using assms by (rule read_body_eof)

theorem read_body_eof_positive_length_witness:
  "read_body \<lparr>response_buff = [1, 2], content_length = 1000, read_offset = 1000,
      current_stream_id = 5, got_first_data = True, session = None\<rparr> 1 16 (- 1) id =
     Some \<lparr>read_ret = Inl kBeQuicErrorCode_Eof, copied = [], waits = [],
       read_client = \<lparr>response_buff = [1, 2], content_length = 1000, read_offset = 1000,
      current_stream_id = 5, got_first_data = True, session = None\<rparr>\<rparr>"
proof -
  have h1: "(1 :: addr) \<noteq> NULL" and h2: "(16 :: int32) \<noteq> 0"
    by (simp_all add: NULL_def)
  have h3: "0 <s content_length \<lparr>response_buff = [1, 2], content_length = 1000, read_offset = 1000,
      current_stream_id = 5, got_first_data = True, session = None\<rparr>"
    by (simp add: word_sless_alt)
  have h4: "content_length \<lparr>response_buff = [1, 2], content_length = 1000, read_offset = 1000,
      current_stream_id = 5, got_first_data = True, session = None\<rparr>
      \<le>s read_offset \<lparr>response_buff = [1, 2], content_length = 1000, read_offset = 1000,
      current_stream_id = 5, got_first_data = True, session = None\<rparr>"
    by simp
  show ?thesis
    by (rule read_body_eof_positive_length [OF h1 h2 h3 h4])
qed

section \<open>Closing the stream\<close>

text \<open>
  Claim C8. \<^verbatim>\<open>close_current_stream\<close> returns false and changes nothing when no stream is bound
  (\<open>current_stream_id = 0\<close>) or there is no session; otherwise it returns true, sets
  \<open>current_stream_id\<close> and \<open>read_offset\<close> to 0 and empties the buffer, so that a second call
  right after it returns false and changes nothing.
\<close>

theorem close_current_stream_behaviour:
  "(current_stream_id c = 0 \<or> session c = None \<longrightarrow> close_current_stream c = (False, c))
   \<and> (current_stream_id c \<noteq> 0 \<and> session c \<noteq> None \<longrightarrow>
        fst (close_current_stream c)
        \<and> current_stream_id (snd (close_current_stream c)) = 0
        \<and> read_offset (snd (close_current_stream c)) = 0
        \<and> response_buff (snd (close_current_stream c)) = []
        \<and> close_current_stream (snd (close_current_stream c)) = (False, snd (close_current_stream c)))"
  by (auto simp: close_current_stream_def consume_def split: option.splits)

theorem close_current_stream_behaviour_witness:
  "close_current_stream \<lparr>response_buff = [1, 2, 3], content_length = 1000, read_offset = 100,
      current_stream_id = 0, got_first_data = True, session = Some []\<rparr>
     = (False, \<lparr>response_buff = [1, 2, 3], content_length = 1000, read_offset = 100,
      current_stream_id = 0, got_first_data = True, session = Some []\<rparr>)
   \<and> fst (close_current_stream \<lparr>response_buff = [1, 2, 3], content_length = 1000, read_offset = 100,
      current_stream_id = 5, got_first_data = True, session = Some []\<rparr>)
   \<and> response_buff (snd (close_current_stream \<lparr>response_buff = [1, 2, 3], content_length = 1000, read_offset = 100,
      current_stream_id = 5, got_first_data = True, session = Some []\<rparr>)) = []
   \<and> read_offset (snd (close_current_stream \<lparr>response_buff = [1, 2, 3], content_length = 1000, read_offset = 100,
      current_stream_id = 5, got_first_data = True, session = Some []\<rparr>)) = 0
   \<and> fst (close_current_stream (snd (close_current_stream \<lparr>response_buff = [1, 2, 3], content_length = 1000, read_offset = 100,
      current_stream_id = 5, got_first_data = True, session = Some []\<rparr>))) = False"
  using close_current_stream_behaviour [of "\<lparr>response_buff = [1, 2, 3], content_length = 1000, read_offset = 100,
      current_stream_id = 0, got_first_data = True, session = Some []\<rparr>"]
    close_current_stream_behaviour [of "\<lparr>response_buff = [1, 2, 3], content_length = 1000, read_offset = 100,
      current_stream_id = 5, got_first_data = True, session = Some []\<rparr>"]
  by simp

section \<open>The sufficiency predicate\<close>

text \<open>
  Claim C2. \<^verbatim>\<open>is_buffer_sufficient\<close> is the specification's four-rule predicate, evaluated
  at the content length, the read offset and the number of retained bytes, whenever the
  subtraction \<^verbatim>\<open>content_length_ - read_offset_\<close> is exact in 64 bits (as it is for every
  content length from \<open>- 1\<close> up and every read offset from 0 up).
\<close>

theorem is_buffer_sufficient_refines_spec:
  assumes "- (2 ^ 63) \<le> sint (content_length c) - sint (read_offset c)"
    and "sint (content_length c) - sint (read_offset c) < 2 ^ 63"
  shows "is_buffer_sufficient c =
           is_sufficient_spec (known_length c) (sint (read_offset c)) (length (response_buff c))"
proof -
  have "sint (content_length c - read_offset c) = sint (content_length c) - sint (read_offset c)"
    using assms by (rule sint_sub_exact)
  then show ?thesis
    by (auto simp: is_buffer_sufficient_def is_sufficient_spec_def known_length_def
        scast_block word_sless_alt Let_def)
qed

theorem is_buffer_sufficient_refines_spec_witness:
  "is_buffer_sufficient \<lparr>response_buff = [1, 2, 3], content_length = 100000, read_offset = 100,
      current_stream_id = 5, got_first_data = True, session = None\<rparr> =
     is_sufficient_spec (Some 100000) 100 3
   \<and> \<not> is_sufficient_spec (Some 100000) 100 3
   \<and> is_buffer_sufficient \<lparr>response_buff = [1, 2, 3], content_length = 1000, read_offset = 100,
      current_stream_id = 5, got_first_data = True, session = None\<rparr> =
     is_sufficient_spec (Some 1000) 100 3
   \<and> is_sufficient_spec (Some 1000) 100 3"
  using is_buffer_sufficient_refines_spec [of "\<lparr>response_buff = [1, 2, 3], content_length = 100000, read_offset = 100,
      current_stream_id = 5, got_first_data = True, session = None\<rparr>"]
    is_buffer_sufficient_refines_spec [of "\<lparr>response_buff = [1, 2, 3], content_length = 1000, read_offset = 100,
      current_stream_id = 5, got_first_data = True, session = None\<rparr>"]
  by (simp add: known_length_def is_sufficient_spec_def)

section \<open>What a read copies\<close>

text \<open>
  Claim C7, as the specification has it: a read that is rejected neither as an invalid
  argument nor as end of stream copies \<open>min(max_len, retained_size)\<close> bytes and returns that
  count. With \<open>max_len = - 1\<close> and three bytes retained the read is not rejected, and it
  copies and returns 3 bytes, where the minimum is \<open>- 1\<close>: \<^verbatim>\<open>(size_t)size\<close> makes the
  negative size the largest \<^verbatim>\<open>size_t\<close>.
\<close>

theorem read_body_negative_size_counterexample:
  "read_body \<lparr>response_buff = [1, 2, 3], content_length = 1000, read_offset = 100,
      current_stream_id = 5, got_first_data = True, session = None\<rparr> 1 (- 1) 0 id =
     Some \<lparr>read_ret = Inr 3, copied = [1, 2, 3], waits = [],
       read_client = \<lparr>response_buff = [], content_length = 1000, read_offset = 103,
         current_stream_id = 5, got_first_data = True, session = None\<rparr>\<rparr>
   \<and> min (sint (- 1 :: int32)) (int (length [1, 2, 3 :: byte])) = - 1"
  by (simp add: read_body_proceeds NULL_def after_wait_def is_buffer_sufficient_def
      word_sless_alt scast_block unsigned_minus_1_eq_mask mask_eq_exp_minus_1)

text \<open>
  Claim C7, amended. When \<open>max_len\<close> is positive and the read is rejected neither as an
  invalid argument nor as end of stream, it copies exactly \<open>n = min(max_len, retained_size)\<close>
  bytes out of the head of the buffer as it is when the wait loop is left, removes them from
  the buffer, advances \<open>read_offset\<close> by \<open>n\<close> (in 64-bit arithmetic) and returns \<open>n\<close>; with
  nothing retained that is the result 0, which is not an error.
\<close>

theorem read_body_copies_min:
  assumes "buf \<noteq> NULL" and "0 <s sz"
    and "\<not> (0 <s content_length c \<and> content_length c \<le>s read_offset c)"
  shows "let c1 = fst (after_wait c timeout env);
             n = min (nat (sint sz)) (length (response_buff c1))
         in read_body c buf sz timeout env =
              Some \<lparr>read_ret = Inr (of_nat n),
                    copied = take n (response_buff c1),
                    waits = snd (after_wait c timeout env),
                    read_client = c1\<lparr>response_buff := drop n (response_buff c1),
                                     read_offset := read_offset c1 + of_nat n\<rparr>\<rparr>
            \<and> sint (of_nat n :: int32) = int n"
proof -
  define c1 where "c1 = fst (after_wait c timeout env)"
  define n where "n = min (nat (sint sz)) (length (response_buff c1))"
  have pos: "0 < sint sz"
    using assms(2) by (simp add: word_sless_alt)
  then have nz: "sz \<noteq> 0"
    by auto
  have cast: "unat (scast sz :: 64 word) = nat (sint sz)"
    using pos by (simp add: unat_scast_nonneg)
  have "n \<le> nat (sint sz)"
    by (simp add: n_def)
  also have "\<dots> < 2 ^ 31"
    using sint_32_bounds(2) [of sz] pos by (simp add: nat_less_iff)
  finally have "sint (of_nat n :: int32) = int n"
    by (rule sint_of_nat_32)
  moreover have "read_body c buf sz timeout env =
      Some \<lparr>read_ret = Inr (of_nat n), copied = take n (response_buff c1),
            waits = snd (after_wait c timeout env),
            read_client = c1\<lparr>response_buff := drop n (response_buff c1),
                             read_offset := read_offset c1 + of_nat n\<rparr>\<rparr>"
    using read_body_proceeds [OF assms(1) nz assms(3), of timeout env]
    by (simp add: Let_def cast c1_def n_def)
  ultimately show ?thesis
    by (simp add: Let_def c1_def n_def)
qed

theorem read_body_copies_min_witness:
  "read_body \<lparr>response_buff = [1, 2, 3], content_length = 1000, read_offset = 100,
      current_stream_id = 5, got_first_data = True, session = None\<rparr> 1 2 0 id =
     Some \<lparr>read_ret = Inr 2, copied = [1, 2], waits = [],
       read_client = \<lparr>response_buff = [3], content_length = 1000, read_offset = 102,
         current_stream_id = 5, got_first_data = True, session = None\<rparr>\<rparr>
   \<and> read_body \<lparr>response_buff = [], content_length = 1000, read_offset = 100,
      current_stream_id = 5, got_first_data = True, session = None\<rparr> 1 2 0 id =
     Some \<lparr>read_ret = Inr 0, copied = [], waits = [],
       read_client = \<lparr>response_buff = [], content_length = 1000, read_offset = 100,
         current_stream_id = 5, got_first_data = True, session = None\<rparr>\<rparr>"
  using read_body_copies_min [of 1 2 "\<lparr>response_buff = [1, 2, 3], content_length = 1000, read_offset = 100,
      current_stream_id = 5, got_first_data = True, session = None\<rparr>" 0 id]
    read_body_copies_min [of 1 2 "\<lparr>response_buff = [], content_length = 1000, read_offset = 100,
      current_stream_id = 5, got_first_data = True, session = None\<rparr>" 0 id]
  by (simp add: NULL_def word_sless_alt after_wait_def is_buffer_sufficient_def scast_block Let_def)

section \<open>One wait at most\<close>



section \<open>Seeking inside the retained window\<close>

text \<open>
  \<^verbatim>\<open>seek_in_buffer\<close> with a known content length, one of the three seek modes and a target
  \<open>T\<close> that is not negative: the seeks that move nothing, the hit and the miss.
\<close>

lemma seek_in_buffer_resolved:
  assumes "content_length c \<noteq> - 1"
    and "whence = SEEK_SET \<and> T = off
       \<or> whence = SEEK_CUR \<and> T = off + read_offset c
       \<or> whence = SEEK_END \<and> T = off + content_length c"
    and "\<not> T <s 0"
  shows "seek_in_buffer c off whence target_off =
     (if (whence = SEEK_CUR \<and> off = 0) \<or> (whence = SEEK_SET \<and> off = read_offset c)
      then \<lparr>seek_ret = Inr off, target_stored = None, seek_client = c\<rparr>
      else if 0 <s T - read_offset c \<and> T - read_offset c <s of_nat (length (response_buff c))
      then \<lparr>seek_ret = Inr T, target_stored = None,
            seek_client = c\<lparr>response_buff := drop (unat (T - read_offset c)) (response_buff c),
                             read_offset := T\<rparr>\<rparr>
      else \<lparr>seek_ret = Inl kBeQuicErrorCode_Buffer_Not_Hit,
            target_stored = (if target_off \<noteq> NULL then Some T else None),
            seek_client = c\<rparr>)"
  using assms
  by (elim disjE conjE)
    (simp_all add: seek_in_buffer_def SEEK_SET_def SEEK_CUR_def SEEK_END_def AVSEEK_SIZE_def
      consume_def Let_def)

text \<open>
  Claim C4, as the specification has it: every non-negative target that is not strictly
  inside the retained window with a positive forward delta, one equal to the end of the
  window included, gets the buffer-miss status, and the target is stored when the
  out-parameter is not null. With an empty window at offset 100, the absolute target 100 is
  the end of the window; the call returns 100, not the buffer-miss status, and stores
  nothing: the test for a seek that moves nothing comes first.
\<close>

theorem seek_target_counterexample:
  "seek_in_buffer
     \<lparr>response_buff = [], content_length = 1000, read_offset = 100,
      current_stream_id = 5, got_first_data = True, session = None\<rparr> 100 SEEK_SET 1 =
   \<lparr>seek_ret = Inr 100, target_stored = None,
    seek_client = \<lparr>response_buff = [], content_length = 1000, read_offset = 100,
      current_stream_id = 5, got_first_data = True, session = None\<rparr>\<rparr>
   \<and> seek_ret (seek_in_buffer
     \<lparr>response_buff = [], content_length = 1000, read_offset = 100,
      current_stream_id = 5, got_first_data = True, session = None\<rparr> 100 SEEK_SET 1)
     \<noteq> Inl kBeQuicErrorCode_Buffer_Not_Hit"
  by (simp add: seek_in_buffer_def SEEK_SET_def AVSEEK_SIZE_def)

text \<open>
  Claim C4, amended. Let the content length be known and \<open>T\<close> be the target of the seek:
  \<open>off\<close> for \<open>SEEK_SET\<close>, \<open>off + read_offset\<close> for \<open>SEEK_CUR\<close>, \<open>off + content_length\<close> for
  \<open>SEEK_END\<close> (sums in 64 bits), with \<open>T \<ge> 0\<close> and fewer than \<open>2^63\<close> bytes retained. When
  \<open>read_offset < T < read_offset + retained_size\<close>, the seek drops \<open>T - read_offset\<close> bytes
  from the head of the buffer, sets \<open>read_offset\<close> to \<open>T\<close> and returns \<open>T\<close>. For any other
  such target, unless the call is one of the two that move nothing (\<open>SEEK_CUR\<close> with
  offset 0, \<open>SEEK_SET\<close> with the offset \<open>read_offset\<close>), it returns
  \<^verbatim>\<open>kBeQuicErrorCode_Buffer_Not_Hit\<close>, changes nothing, and stores \<open>T\<close> through \<open>target_off\<close>
  when that is not null.
\<close>

theorem seek_hit_or_miss:
  assumes known: "content_length c \<noteq> - 1"
    and target: "whence = SEEK_SET \<and> T = off
               \<or> whence = SEEK_CUR \<and> T = off + read_offset c
               \<or> whence = SEEK_END \<and> T = off + content_length c"
    and nonneg: "0 \<le> sint T"
    and size: "length (response_buff c) < 2 ^ 63"
  shows "(sint (read_offset c) < sint T
            \<and> sint T < sint (read_offset c) + int (length (response_buff c)) \<longrightarrow>
          seek_in_buffer c off whence target_off =
            \<lparr>seek_ret = Inr T, target_stored = None,
             seek_client = c\<lparr>response_buff := drop (nat (sint T - sint (read_offset c))) (response_buff c),
                              read_offset := T\<rparr>\<rparr>)
       \<and> (\<not> (sint (read_offset c) < sint T
               \<and> sint T < sint (read_offset c) + int (length (response_buff c)))
            \<and> \<not> (whence = SEEK_CUR \<and> off = 0) \<and> \<not> (whence = SEEK_SET \<and> off = read_offset c) \<longrightarrow>
          seek_in_buffer c off whence target_off =
            \<lparr>seek_ret = Inl kBeQuicErrorCode_Buffer_Not_Hit,
             target_stored = (if target_off \<noteq> NULL then Some T else None),
             seek_client = c\<rparr>)"
proof -
  let ?hit = "sint (read_offset c) < sint T
      \<and> sint T < sint (read_offset c) + int (length (response_buff c))"
  let ?noop = "(whence = SEEK_CUR \<and> off = 0) \<or> (whence = SEEK_SET \<and> off = read_offset c)"
  have window: "(0 <s T - read_offset c \<and> T - read_offset c <s of_nat (length (response_buff c))) = ?hit"
    using nonneg size by (rule seek_window_iff)
  have not_neg: "\<not> T <s 0"
    using nonneg by (simp add: word_sless_alt)
  note resolved = seek_in_buffer_resolved [OF known target not_neg, of target_off]
  show ?thesis
  proof (cases ?hit)
    case True
    then have moved: "T \<noteq> read_offset c"
      by auto
    have no_op: "?noop = False"
      using target moved by (auto simp: SEEK_SET_def SEEK_CUR_def SEEK_END_def)
    have "- (2 ^ 63) \<le> sint T - sint (read_offset c)" "sint T - sint (read_offset c) < 2 ^ 63"
      using True size by auto
    then have "sint (T - read_offset c) = sint T - sint (read_offset c)"
      by (rule sint_sub_exact)
    then have "unat (T - read_offset c) = nat (sint T - sint (read_offset c))"
      using True by (simp add: unat_of_nonneg_sint)
    moreover have hit: "?hit = True"
      using True by simp
    ultimately show ?thesis
      unfolding resolved no_op window hit by simp
  next
    case False
    then have miss: "?hit = False"
      by simp
    show ?thesis
    proof (cases ?noop)
      case True
      then show ?thesis
        unfolding miss by blast
    next
      case False
      then have no_op: "?noop = False"
        by simp
      from False show ?thesis
        unfolding resolved window miss no_op by simp
    qed
  qed
qed

theorem seek_hit_or_miss_witness:
  "seek_in_buffer \<lparr>response_buff = [1, 2, 3, 4], content_length = 1000, read_offset = 100,
      current_stream_id = 5, got_first_data = True, session = None\<rparr> 102 SEEK_SET 1 =
     \<lparr>seek_ret = Inr 102, target_stored = None,
      seek_client = \<lparr>response_buff = [3, 4], content_length = 1000, read_offset = 102,
        current_stream_id = 5, got_first_data = True, session = None\<rparr>\<rparr>
   \<and> seek_in_buffer \<lparr>response_buff = [1, 2, 3, 4], content_length = 1000, read_offset = 100,
      current_stream_id = 5, got_first_data = True, session = None\<rparr> 3 SEEK_CUR 1 =
     \<lparr>seek_ret = Inr 103, target_stored = None,
      seek_client = \<lparr>response_buff = [4], content_length = 1000, read_offset = 103,
        current_stream_id = 5, got_first_data = True, session = None\<rparr>\<rparr>
   \<and> seek_in_buffer \<lparr>response_buff = [1, 2, 3, 4], content_length = 1000, read_offset = 100,
      current_stream_id = 5, got_first_data = True, session = None\<rparr> 104 SEEK_SET 1 =
     \<lparr>seek_ret = Inl kBeQuicErrorCode_Buffer_Not_Hit, target_stored = Some 104,
      seek_client = \<lparr>response_buff = [1, 2, 3, 4], content_length = 1000, read_offset = 100,
        current_stream_id = 5, got_first_data = True, session = None\<rparr>\<rparr>
   \<and> seek_in_buffer \<lparr>response_buff = [1, 2, 3, 4], content_length = 1000, read_offset = 100,
      current_stream_id = 5, got_first_data = True, session = None\<rparr> 50 SEEK_SET NULL =
     \<lparr>seek_ret = Inl kBeQuicErrorCode_Buffer_Not_Hit, target_stored = None,
      seek_client = \<lparr>response_buff = [1, 2, 3, 4], content_length = 1000, read_offset = 100,
        current_stream_id = 5, got_first_data = True, session = None\<rparr>\<rparr>"
  using
    seek_hit_or_miss [of "\<lparr>response_buff = [1, 2, 3, 4], content_length = 1000, read_offset = 100,
      current_stream_id = 5, got_first_data = True, session = None\<rparr>" SEEK_SET 102 102 1]
    seek_hit_or_miss [of "\<lparr>response_buff = [1, 2, 3, 4], content_length = 1000, read_offset = 100,
      current_stream_id = 5, got_first_data = True, session = None\<rparr>" SEEK_CUR 103 3 1]
    seek_hit_or_miss [of "\<lparr>response_buff = [1, 2, 3, 4], content_length = 1000, read_offset = 100,
      current_stream_id = 5, got_first_data = True, session = None\<rparr>" SEEK_SET 104 104 1]
    seek_hit_or_miss [of "\<lparr>response_buff = [1, 2, 3, 4], content_length = 1000, read_offset = 100,
      current_stream_id = 5, got_first_data = True, session = None\<rparr>" SEEK_SET 50 50 NULL]
  by (simp add: SEEK_SET_def SEEK_CUR_def SEEK_END_def NULL_def)

section \<open>No byte is lost, duplicated or reordered\<close>

lemma deliver_appends:
  assumes "well_formed d"
  shows "response_buff (deliver d c) = response_buff c @ chunk d"
proof -
  obtain stream buf sz where d: "d = (stream, buf, sz)"
    by (cases d)
  from assms d obtain st where st: "stream = Some st"
    by (auto simp: well_formed_def)
  show ?thesis
  proof (cases buf)
    case None
    with d st show ?thesis
      by (simp add: deliver_def chunk_def on_data_def Let_def)
  next
    case (Some bytes)
    with assms d have len: "sint sz = int (length bytes)"
      by (simp add: well_formed_def)
    show ?thesis
    proof (cases "0 <s sz")
      case True
      with d st Some len show ?thesis
        by (simp add: deliver_def chunk_def on_data_def Let_def)
    next
      case False
      with len have "bytes = []"
        by (simp add: word_sless_alt)
      with d st Some False show ?thesis
        by (simp add: deliver_def chunk_def on_data_def Let_def)
    qed
  qed
qed

lemma deliver_all_appends:
  "list_all well_formed ds \<Longrightarrow>
   response_buff (deliver_all ds c) = response_buff c @ concat (map chunk ds)"
proof (induction ds arbitrary: c)
  case Nil
  then show ?case
    by (simp add: deliver_all_def)
next
  case (Cons d ds)
  then have "response_buff (deliver_all ds (deliver d c)) =
      response_buff (deliver d c) @ concat (map chunk ds)"
    by simp
  with Cons.prems show ?case
    by (simp add: deliver_all_def deliver_appends)
qed

lemma read_body_splits_buffer:
  "\<exists>r. read_body c buf sz timeout env = Some r
     \<and> copied r @ response_buff (read_client r) =
         response_buff (if waits r = [] then c else env c)"
proof (cases "buf = NULL \<or> sz = 0")
  case True
  then show ?thesis
    by (auto simp: read_body_rejected)
next
  case args: False
  show ?thesis
  proof (cases "0 <s content_length c \<and> content_length c \<le>s read_offset c")
    case True
    with args show ?thesis
      by (auto simp: read_body_eof)
  next
    case False
    with args show ?thesis
      by (auto simp: read_body_proceeds Let_def after_wait_def)
  qed
qed

lemma run_keeps_stream_order:
  "list_all call_ok cs \<Longrightarrow>
   \<exists>t. run c cs = Some t
     \<and> returned t @ response_buff (last_client t) = response_buff c @ delivered t"
proof (induction cs arbitrary: c)
  case Nil
  then show ?case
    by simp
next
  case (Cons a cs)
  show ?case
  proof (cases a)
    case (Data d)
    with Cons.prems have ok: "well_formed d" "list_all call_ok cs"
      by simp_all
    from Cons.IH [OF ok(2), of "deliver d c"] obtain t where
      t: "run (deliver d c) cs = Some t"
        "returned t @ response_buff (last_client t) = response_buff (deliver d c) @ delivered t"
      by blast
    with Data ok(1) show ?thesis
      by (simp add: deliver_appends)
  next
    case (Read buf sz timeout ds)
    with Cons.prems have ok: "list_all well_formed ds" "list_all call_ok cs"
      by simp_all
    obtain r where r: "read_body c buf sz timeout (deliver_all ds) = Some r"
        "copied r @ response_buff (read_client r) =
           response_buff (if waits r = [] then c else deliver_all ds c)"
      using read_body_splits_buffer [of c buf sz timeout "deliver_all ds"] by blast
    from Cons.IH [OF ok(2), of "read_client r"] obtain t where
      t: "run (read_client r) cs = Some t"
        "returned t @ response_buff (last_client t) = response_buff (read_client r) @ delivered t"
      by blast
    have "copied r @ returned t @ response_buff (last_client t) =
        (copied r @ response_buff (read_client r)) @ delivered t"
      using t(2) by simp
    also have "\<dots> = response_buff c @ (if waits r = [] then [] else concat (map chunk ds)) @ delivered t"
      using r(2) ok(1) by (simp add: deliver_all_appends)
    finally show ?thesis
      using Read r(1) t(1) by simp
  qed
qed

text \<open>
  Claim C1. Start with an empty buffer and make any sequence of well-formed deliveries and
  of reads, with any arguments, the deliveries between the reads or during their waits,
  and no seek. Then every call returns, the bytes the reads copied out, in order, followed
  by the bytes still in the buffer, are exactly the chunks delivered, in order; so the
  bytes read are the concatenation of the chunks, truncated to the number of bytes read.
\<close>

theorem reads_return_delivered_prefix:
  assumes "list_all call_ok cs" and "response_buff c = []"
  shows "\<exists>t. run c cs = Some t
           \<and> returned t @ response_buff (last_client t) = delivered t
           \<and> returned t = take (length (returned t)) (delivered t)"
proof -
  from run_keeps_stream_order [OF assms(1), of c] obtain t where
    t: "run c cs = Some t"
      "returned t @ response_buff (last_client t) = response_buff c @ delivered t"
    by blast
  from t(2) assms(2) have eq: "returned t @ response_buff (last_client t) = delivered t"
    by simp
  then have "take (length (returned t)) (delivered t) = returned t"
    by (metis append_eq_conv_conj)
  with t(1) eq show ?thesis
    by simp
qed

theorem reads_return_delivered_prefix_witness:
  "run \<lparr>response_buff = [], content_length = - 1, read_offset = 0,
          current_stream_id = 0, got_first_data = False, session = None\<rparr>
       [Data (Some \<lparr>stream_id = 5, check_content_length = 100000\<rparr>, Some [1, 2, 3], 3),
        Read 1 2 0 [],
        Read 1 16 (- 1) [(Some \<lparr>stream_id = 5, check_content_length = 100000\<rparr>, Some [4, 5], 2)],
        Data (Some \<lparr>stream_id = 5, check_content_length = 100000\<rparr>, Some [6, 7], 2),
        Read 1 1 0 []] =
     Some \<lparr>delivered = [1, 2, 3, 4, 5, 6, 7], returned = [1, 2, 3, 4, 5, 6],
       last_client = \<lparr>response_buff = [7], content_length = 100000, read_offset = 6,
          current_stream_id = 5, got_first_data = True, session = None\<rparr>\<rparr>"
  using reads_return_delivered_prefix [of
       "[Data (Some \<lparr>stream_id = 5, check_content_length = 100000\<rparr>, Some [1, 2, 3], 3),
        Read 1 2 0 [],
        Read 1 16 (- 1) [(Some \<lparr>stream_id = 5, check_content_length = 100000\<rparr>, Some [4, 5], 2)],
        Data (Some \<lparr>stream_id = 5, check_content_length = 100000\<rparr>, Some [6, 7], 2),
        Read 1 1 0 []]"
       "\<lparr>response_buff = [], content_length = - 1, read_offset = 0,
          current_stream_id = 0, got_first_data = False, session = None\<rparr>"]
  by (simp add: deliver_def deliver_all_def chunk_def on_data_def read_body_proceeds NULL_def
      after_wait_def is_buffer_sufficient_def scast_block word_sless_alt word_sle_eq Let_def)

end
